theory Spec2Isabelle
  imports Complex_Main "HOL-Library.Word" "HOL-Library.Sublist"
begin

section \<open>Host-language values\<close>

text \<open>
  The program is TypeScript on Node.js. A \<open>Uint8Array\<close> element is an 8-bit word, a
  string is a character list, and a \<open>number\<close> is an IEEE double: a finite value is kept as
  the rational it denotes, next to the three special values. Where an arithmetic result has to be
  rounded to a double again, the rounding is the parameter \<open>round_double\<close> of the
  environment below, so that no theorem depends on how it rounds.
\<close>

type_synonym byte = "8 word"

datatype js_number = Finite rat | NaN | PosInf | NegInf

text \<open>The relational operator \<open>a > b\<close> on numbers: false as soon as one side is NaN.\<close>

fun js_gt :: "js_number \<Rightarrow> js_number \<Rightarrow> bool" where
  "js_gt NaN b = False"
| "js_gt a NaN = False"
| "js_gt (Finite a) (Finite b) = (b < a)"
| "js_gt (Finite a) NegInf = True"
| "js_gt (Finite a) PosInf = False"
| "js_gt PosInf PosInf = False"
| "js_gt PosInf b = True"
| "js_gt NegInf b = False"

subsection \<open>Decimal and hexadecimal digits\<close>

definition digit_char :: "nat \<Rightarrow> char" where
  "digit_char d = char_of (48 + d)"

fun show_nat :: "nat \<Rightarrow> string" where
  "show_nat n = (if n < 10 then [digit_char n] else show_nat (n div 10) @ [digit_char (n mod 10)])"

declare show_nat.simps [simp del]

text \<open>\<open>String(i)\<close> for an integer-valued number \<open>i\<close>.\<close>

definition show_int :: "int \<Rightarrow> string" where
  "show_int i = (if i < 0 then CHR ''-'' # show_nat (nat (- i)) else show_nat (nat i))"

definition is_digit :: "char \<Rightarrow> bool" where
  "is_digit c = (48 \<le> (of_char c :: nat) \<and> (of_char c :: nat) \<le> 57)"

definition dec_value :: "string \<Rightarrow> nat" where
  "dec_value s = foldl (\<lambda>acc c. 10 * acc + ((of_char c :: nat) - 48)) 0 s"

text \<open>\<open>b.toString(16)\<close> yields lower-case digits.\<close>

definition hex_char :: "nat \<Rightarrow> char" where
  "hex_char d = (if d < 10 then char_of (48 + d) else char_of (87 + d))"

definition hex_digit_val :: "char \<Rightarrow> nat option" where
  "hex_digit_val c =
     (let k = (of_char c :: nat) in
      if 48 \<le> k \<and> k \<le> 57 then Some (k - 48)
      else if 97 \<le> k \<and> k \<le> 102 then Some (k - 87)
      else if 65 \<le> k \<and> k \<le> 70 then Some (k - 55)
      else None)"

definition is_hex :: "char \<Rightarrow> bool" where
  "is_hex c = (hex_digit_val c \<noteq> None)"

definition hex_value :: "string \<Rightarrow> nat" where
  "hex_value s = foldl (\<lambda>acc c. 16 * acc + (case hex_digit_val c of Some d \<Rightarrow> d | None \<Rightarrow> 0)) 0 s"

text \<open>
  The white space \<open>parseInt\<close> skips, as far as it fits an 8-bit character: TAB, LF, VT, FF,
  CR, SP and NBSP.
\<close>

definition is_js_space :: "char \<Rightarrow> bool" where
  "is_js_space c = ((of_char c :: nat) \<in> set [9, 10, 11, 12, 13, 32, 160])"

text \<open>
  \<open>parseInt(s, 16)\<close>: skip leading white space, read a sign, strip a \<open>0x\<close> prefix, take the
  longest run of hexadecimal digits; \<open>None\<close> is NaN.
\<close>

definition parseInt16 :: "string \<Rightarrow> int option" where
  "parseInt16 s =
     (let s1 = dropWhile is_js_space s;
          neg = (s1 \<noteq> [] \<and> hd s1 = CHR ''-'');
          s2 = (if s1 \<noteq> [] \<and> (hd s1 = CHR ''+'' \<or> hd s1 = CHR ''-'') then tl s1 else s1);
          s3 = (if take 2 s2 = ''0x'' \<or> take 2 s2 = ''0X'' then drop 2 s2 else s2);
          z = takeWhile is_hex s3
      in if z = [] then None
         else Some ((if neg then - 1 else 1) * int (hex_value z)))"

text \<open>Storing a number into a \<open>Uint8Array\<close>: NaN becomes 0, an integer is taken modulo 256.\<close>

definition to_uint8 :: "int option \<Rightarrow> byte" where
  "to_uint8 v = (case v of None \<Rightarrow> 0 | Some i \<Rightarrow> word_of_int i)"

definition join :: "string \<Rightarrow> string list \<Rightarrow> string" where
  "join sep xs = (case xs of [] \<Rightarrow> [] | y # ys \<Rightarrow> y @ concat (map (\<lambda>z. sep @ z) ys))"

definition starts_with :: "string \<Rightarrow> string \<Rightarrow> bool" where
  "starts_with s p = (take (length p) s = p)"

section \<open>session.ts: helpers\<close>

definition bytesToHex :: "byte list \<Rightarrow> string" where
  "bytesToHex bytes = concat (map (\<lambda>b. [hex_char (unat b div 16), hex_char (unat b mod 16)]) bytes)"

text \<open>
  The loop of \<open>hexToBytes\<close> reads the \<open>i\<close>-th two-character slice into byte \<open>i\<close> for
  \<open>i < floor(length / 2)\<close>; a trailing odd character is never read.
\<close>

fun hex_pairs :: "string \<Rightarrow> byte list" where
  "hex_pairs (a # b # rest) = to_uint8 (parseInt16 [a, b]) # hex_pairs rest"
| "hex_pairs rest = []"

definition hexToBytes :: "string \<Rightarrow> byte list" where
  "hexToBytes hex = hex_pairs (if starts_with hex ''0x'' then drop 2 hex else hex)"

section \<open>Data model\<close>

text \<open>
  \<open>SessionData\<close> of session.ts. \<open>expiresAt\<close> is a unix time in milliseconds.
\<close>

record SessionData =
  sessionId :: string
  address :: string
  sessionPrivateKey :: string
  sessionPublicKey :: string
  expiresAt :: int
  createdAt :: string

text \<open>\<open>WalletData\<close> of wallet.ts, as far as the payment client reads it.\<close>

record WalletData =
  wallet_address :: string
  walletId :: string

text \<open>
  A payment requirement of a 402 body. \<open>maxAmountRequired\<close> is a string in version 1 of the
  protocol and absent (\<open>undefined\<close>) in a version 2 requirement, which carries \<open>amount\<close>.
\<close>

record PaymentRequirements =
  scheme :: string
  network :: string
  maxAmountRequired :: "string option"
  asset :: string
  payTo :: string

record request =
  req_verb :: string
  req_url :: string
  req_headers :: "(string \<times> string) list"
  req_body :: "string option"

text \<open>
  An HTTP response: the status, the body as \<open>text()\<close> returns it, and the fields the code reads
  from \<open>json()\<close> through its type casts (the code validates none of them).
\<close>

record response =
  status :: nat
  body_text :: string
  nonce_field :: string
  signature_field :: "string option"
  result_field :: "string option"
  sessionId_field :: string
  expiresAt_field :: int
  accepts :: "PaymentRequirements list"

definition ok :: "response \<Rightarrow> bool" where
  "ok r = (200 \<le> status r \<and> status r \<le> 299)"

text \<open>
  The session file \<open>~/.signal402/session.json\<close>: its directory may be missing, the file may be
  missing, hold text that \<open>JSON.parse\<close> rejects, or hold a session.
\<close>

datatype session_store = DirMissing | FileMissing | FileCorrupt | FileStored SessionData

text \<open>Every \<open>throw\<close> of the modelled code, and the rejections of what it calls.\<close>

datatype error =
    NoWallet
  | FetchFailed
  | NonceFailed nat
  | SignRawFailed nat string
  | NoSignature
  | SessionCreationFailed nat string
  | JsonSyntaxError
  | FsError
  | SigningRejected
  | SetRangeError
  | NoSupportedScheme
  | PaymentAborted string

text \<open>
  What the program does not contain: the remote parties and the libraries. \<open>net\<close> answers a
  request given the requests sent before it, with the time the exchange took in milliseconds;
  \<open>None\<close> is a rejected \<open>fetch\<close>. \<open>sha256\<close> is \<open>crypto.subtle.digest\<close> on the UTF-8
  bytes of a string. \<open>ecdsa_sign\<close> is the curve arithmetic of the signing library: the
  signature \<open>(r, s, recovery)\<close> before any normalisation of \<open>s\<close>, or \<open>None\<close> when the library
  rejects its input. The random sources are read at an index that the world advances. The
  \<open>sdk_\<close> fields are the choices of the x402 SDK: the requirement it selects, the typed data it
  builds for it, and the header that carries the signed payload.
\<close>

record env =
  net :: "request list \<Rightarrow> request \<Rightarrow> response option \<times> nat"
  sha256 :: "string \<Rightarrow> byte list"
  getPublicKey :: "byte list \<Rightarrow> byte list"
  ecdsa_sign :: "byte list \<Rightarrow> byte list \<Rightarrow> (nat \<times> nat \<times> nat) option"
  randomPrivateKey :: "nat \<Rightarrow> byte list"
  randomUUID :: "nat \<Rightarrow> string"
  toISOString :: "int \<Rightarrow> string"
  hashMessage :: "string \<Rightarrow> string"
  hashTypedData :: "string \<Rightarrow> string"
  json_quote :: "string \<Rightarrow> string"
  numberToString :: "rat \<Rightarrow> string"
  stringToNumber :: "string \<Rightarrow> js_number"
  round_double :: "rat \<Rightarrow> rat"
  sdk_select :: "PaymentRequirements list \<Rightarrow> PaymentRequirements option"
  sdk_typed_data :: "PaymentRequirements \<Rightarrow> string"
  sdk_payment_header :: "PaymentRequirements \<Rightarrow> string \<Rightarrow> string \<times> string"

text \<open>What the program reads and changes outside its own variables.\<close>

record world =
  now :: int
  session_file :: session_store
  wallet_file :: "WalletData option"
  net_log :: "request list"
  entropy :: nat

definition fetch :: "env \<Rightarrow> world \<Rightarrow> request \<Rightarrow> response option \<times> world" where
  "fetch e w rq =
     (let (r, dt) = net e (net_log w) rq
      in (r, w\<lparr>net_log := net_log w @ [rq], now := now w + int dt\<rparr>))"

section \<open>session.ts\<close>

definition CLARA_PROXY :: string where
  "CLARA_PROXY = ''https://clara-proxy.bflynn-me.workers.dev''"

definition sha256hex :: "env \<Rightarrow> string \<Rightarrow> string" where
  "sha256hex e s = bytesToHex (sha256 e s)"

definition generateSessionKeypair :: "env \<Rightarrow> world \<Rightarrow> (byte list \<times> string) \<times> world" where
  "generateSessionKeypair e w =
     (let privateKey = randomPrivateKey e (entropy w);
          publicKey = getPublicKey e privateKey
      in ((privateKey, bytesToHex publicKey), w\<lparr>entropy := Suc (entropy w)\<rparr>))"

definition constructSiweMessage :: "env \<Rightarrow> world \<Rightarrow> string \<Rightarrow> string \<Rightarrow> string \<Rightarrow> string \<Rightarrow> string" where
  "constructSiweMessage e w addr nonce sessionPubKey expirationTime =
     (let domain = ''clara-proxy.bflynn-me.workers.dev'';
          uri = ''https://'' @ domain;
          issuedAt = toISOString e (now w);
          chainId = (8453 :: nat);
          statement = ''Delegate signing authority to session key: '' @ sessionPubKey
      in join [CHR 0x0A]
           [domain @ '' wants you to sign in with your Ethereum account:'',
            addr,
            [],
            statement,
            [],
            ''URI: '' @ uri,
            ''Version: 1'',
            ''Chain ID: '' @ show_nat chainId,
            ''Nonce: '' @ nonce,
            ''Issued At: '' @ issuedAt,
            ''Expiration Time: '' @ expirationTime])"

text \<open>\<open>JSON.stringify\<close> of the two objects the code sends.\<close>

definition json_key :: "string \<Rightarrow> string" where
  "json_key k = CHR 0x22 # k @ [CHR 0x22, CHR '':'']"

definition stringify_data :: "env \<Rightarrow> string \<Rightarrow> string" where
  "stringify_data e d = ''{'' @ json_key ''data'' @ json_quote e d @ ''}''"

definition stringify_session :: "env \<Rightarrow> string \<Rightarrow> string \<Rightarrow> string \<Rightarrow> string" where
  "stringify_session e siweMessage sig sessionPubKey =
     ''{'' @ json_key ''siweMessage'' @ json_quote e siweMessage @ '','' @
     json_key ''signature'' @ json_quote e sig @ '','' @
     json_key ''sessionPublicKey'' @ json_quote e sessionPubKey @ ''}''"

text \<open>\<open>a || b\<close> on optional strings: the empty string is falsy.\<close>

definition truthy_or :: "string option \<Rightarrow> string option \<Rightarrow> string option" where
  "truthy_or a b = (case a of Some (c # cs) \<Rightarrow> a | _ \<Rightarrow> (case b of Some (c # cs) \<Rightarrow> b | _ \<Rightarrow> None))"

text \<open>\<open>toLowerCase\<close> on the ASCII letters.\<close>

definition toLowerCase :: "string \<Rightarrow> string" where
  "toLowerCase s =
     map (\<lambda>c. if 65 \<le> (of_char c :: nat) \<and> (of_char c :: nat) \<le> 90 then char_of ((of_char c :: nat) + 32) else c) s"

text \<open>\<open>writeFileSync\<close> replaces the file; it throws when the directory does not exist.\<close>

definition writeSessionFile :: "world \<Rightarrow> SessionData \<Rightarrow> world option" where
  "writeSessionFile w s =
     (case session_file w of DirMissing \<Rightarrow> None | _ \<Rightarrow> Some (w\<lparr>session_file := FileStored s\<rparr>))"

definition nonce_request :: request where
  "nonce_request = \<lparr>req_verb = ''GET'', req_url = CLARA_PROXY @ ''/auth/nonce'', req_headers = [], req_body = None\<rparr>"

definition bootstrap_sign_request :: "env \<Rightarrow> string \<Rightarrow> string \<Rightarrow> string \<Rightarrow> request" where
  "bootstrap_sign_request e wid addr siweHash =
     \<lparr>req_verb = ''POST'',
      req_url = CLARA_PROXY @ ''/api/v1/wallets/'' @ wid @ ''/sign-raw'',
      req_headers = [(''Content-Type'', ''application/json''), (''X-Clara-Address'', addr)],
      req_body = Some (stringify_data e siweHash)\<rparr>"

definition session_request :: "env \<Rightarrow> string \<Rightarrow> string \<Rightarrow> string \<Rightarrow> request" where
  "session_request e siweMessage sig sessionPubKey =
     \<lparr>req_verb = ''POST'',
      req_url = CLARA_PROXY @ ''/auth/session'',
      req_headers = [(''Content-Type'', ''application/json'')],
      req_body = Some (stringify_session e siweMessage sig sessionPubKey)\<rparr>"

definition establishSession :: "env \<Rightarrow> world \<Rightarrow> string \<Rightarrow> string \<Rightarrow> (error + SessionData) \<times> world" where
  "establishSession e w wid addr =
     (case fetch e w nonce_request of
        (None, w1) \<Rightarrow> (Inl FetchFailed, w1)
      | (Some nonceRes, w1) \<Rightarrow>
          if \<not> ok nonceRes then (Inl (NonceFailed (status nonceRes)), w1)
          else
            let nonce = nonce_field nonceRes;
                ((privateKey, sessionPubKey), w2) = generateSessionKeypair e w1;
                expirationTime = toISOString e (now w2 + 24 * 60 * 60 * 1000);
                siweMessage = constructSiweMessage e w2 addr nonce sessionPubKey expirationTime;
                siweHash = hashMessage e siweMessage
            in (case fetch e w2 (bootstrap_sign_request e wid addr siweHash) of
                  (None, w3) \<Rightarrow> (Inl FetchFailed, w3)
                | (Some signRes, w3) \<Rightarrow>
                    if \<not> ok signRes then (Inl (SignRawFailed (status signRes) (body_text signRes)), w3)
                    else
                      (case truthy_or (signature_field signRes) (result_field signRes) of
                         None \<Rightarrow> (Inl NoSignature, w3)
                       | Some siweSignature \<Rightarrow>
                           (case fetch e w3 (session_request e siweMessage siweSignature sessionPubKey) of
                              (None, w4) \<Rightarrow> (Inl FetchFailed, w4)
                            | (Some sessionRes, w4) \<Rightarrow>
                                if \<not> ok sessionRes
                                then (Inl (SessionCreationFailed (status sessionRes) (body_text sessionRes)), w4)
                                else
                                  let session =
                                        \<lparr>sessionId = sessionId_field sessionRes,
                                         address = toLowerCase addr,
                                         sessionPrivateKey = bytesToHex privateKey,
                                         sessionPublicKey = sessionPubKey,
                                         expiresAt = expiresAt_field sessionRes,
                                         createdAt = toISOString e (now w4)\<rparr>
                                  in (case writeSessionFile w4 session of
                                        None \<Rightarrow> (Inl FsError, w4)
                                      | Some w5 \<Rightarrow> (Inr session, w5))))))"

subsection \<open>Per-request signing\<close>

text \<open>
  Modelled from the spec: the signing library (@noble/secp256k1) is not among the sources.
  Section 4.1 of the specification asks for low-S signatures and for \<open>r\<close>, \<open>s\<close> and the recovery
  id in 65 bytes; the code asks the library for both: \<open>signAsync\<close> with the option
  \<open>lowS\<close> replaces a signature whose \<open>s\<close> lies above half the group order by its twin
  \<open>(r, -s mod n)\<close> and flips the lowest bit of the recovery id; \<open>toCompactRawBytes\<close> is \<open>r\<close> and \<open>s\<close> as 32
  big-endian bytes each.
\<close>

definition secp256k1_n :: nat where
  "secp256k1_n = 0xFFFFFFFFFFFFFFFFFFFFFFFFFFFFFFFEBAAEDCE6AF48A03BBFD25E8CD0364141"

definition flip_bit0 :: "nat \<Rightarrow> nat" where
  "flip_bit0 v = (if even v then v + 1 else v - 1)"

definition signAsync :: "env \<Rightarrow> byte list \<Rightarrow> byte list \<Rightarrow> bool \<Rightarrow> (nat \<times> nat \<times> nat) option" where
  "signAsync e msgHash privKey lowS =
     (case ecdsa_sign e msgHash privKey of
        None \<Rightarrow> None
      | Some (r, s, recovery) \<Rightarrow>
          if lowS \<and> secp256k1_n div 2 < s
          then Some (r, (secp256k1_n - s mod secp256k1_n) mod secp256k1_n, flip_bit0 recovery)
          else Some (r, s, recovery))"

fun be_bytes :: "nat \<Rightarrow> nat \<Rightarrow> byte list" where
  "be_bytes 0 v = []"
| "be_bytes (Suc k) v = be_bytes k (v div 256) @ [of_nat (v mod 256)]"

definition toCompactRawBytes :: "nat \<times> nat \<times> nat \<Rightarrow> byte list" where
  "toCompactRawBytes sg = (case sg of (r, s, recovery) \<Rightarrow> be_bytes 32 r @ be_bytes 32 s)"

text \<open>\<open>target.set(source)\<close> on typed arrays: a source longer than the target is a RangeError.\<close>

definition uint8_set :: "byte list \<Rightarrow> byte list \<Rightarrow> byte list option" where
  "uint8_set target source =
     (if length target < length source then None
      else Some (source @ drop (length source) target))"

definition canonicalMessage :: "string \<Rightarrow> string \<Rightarrow> string \<Rightarrow> string \<Rightarrow> string \<Rightarrow> string" where
  "canonicalMessage verb path bodyDigest timestamp nonce =
     join [CHR 0x0A]
       [''CLARA-REQUEST-SIG-V1'', verb, path, ''sha256:'' @ bodyDigest, timestamp, nonce]"

definition signRequest ::
  "env \<Rightarrow> world \<Rightarrow> SessionData \<Rightarrow> string \<Rightarrow> string \<Rightarrow> string \<Rightarrow> (error + (string \<times> string) list) \<times> world" where
  "signRequest e w session verb path body =
     (let nonce = randomUUID e (entropy w);
          w1 = w\<lparr>entropy := Suc (entropy w)\<rparr>;
          timestamp = show_int (now w1 div 1000);
          bodyDigest = sha256hex e body;
          msgHash = sha256hex e (canonicalMessage verb path bodyDigest timestamp nonce);
          msgHashBytes = hexToBytes msgHash;
          privKeyBytes = hexToBytes (sessionPrivateKey session)
      in (case signAsync e msgHashBytes privKeyBytes True of
            None \<Rightarrow> (Inl SigningRejected, w1)
          | Some sg \<Rightarrow>
              (case uint8_set (replicate 65 0) (toCompactRawBytes sg) of
                 None \<Rightarrow> (Inl SetRangeError, w1)
               | Some filled \<Rightarrow>
                   let fullSig = filled[64 := of_nat (snd (snd sg) + 27)]
                   in (Inr [(''X-Clara-Address'', address session),
                            (''X-Clara-Session'', sessionId session),
                            (''X-Clara-Signature'', ''0x'' @ bytesToHex fullSig),
                            (''X-Clara-Timestamp'', timestamp),
                            (''X-Clara-Nonce'', nonce)], w1))))"

subsection \<open>Session management\<close>

definition bufferMs :: int where
  "bufferMs = 5 * 60 * 1000"

definition getSession :: "env \<Rightarrow> world \<Rightarrow> string \<Rightarrow> string \<Rightarrow> (error + SessionData) \<times> world" where
  "getSession e w wid addr =
     (case session_file w of
        FileCorrupt \<Rightarrow> (Inl JsonSyntaxError, w)
      | FileStored session \<Rightarrow>
          if now w + bufferMs < expiresAt session then (Inr session, w)
          else establishSession e w wid addr
      | DirMissing \<Rightarrow> establishSession e w wid addr
      | FileMissing \<Rightarrow> establishSession e w wid addr)"

section \<open>account.ts: the signer handed to the SDK\<close>

definition signTypedData :: "env \<Rightarrow> world \<Rightarrow> string \<Rightarrow> string \<Rightarrow> string \<Rightarrow> (error + string) \<times> world" where
  "signTypedData e w wid addr typedData =
     (let hash = hashTypedData e typedData
      in (case getSession e w wid addr of
            (Inl err, w1) \<Rightarrow> (Inl err, w1)
          | (Inr session, w1) \<Rightarrow>
              let signPath = ''/api/v1/wallets/'' @ wid @ ''/sign-raw'';
                  signBody = stringify_data e hash
              in (case signRequest e w1 session ''POST'' signPath signBody of
                    (Inl err, w2) \<Rightarrow> (Inl err, w2)
                  | (Inr authHeaders, w2) \<Rightarrow>
                      (case fetch e w2
                              \<lparr>req_verb = ''POST'',
                               req_url = CLARA_PROXY @ signPath,
                               req_headers = (''Content-Type'', ''application/json'') # authHeaders,
                               req_body = Some signBody\<rparr> of
                         (None, w3) \<Rightarrow> (Inl FetchFailed, w3)
                       | (Some signRes, w3) \<Rightarrow>
                           if \<not> ok signRes
                           then (Inl (SignRawFailed (status signRes) (body_text signRes)), w3)
                           else
                             (case truthy_or (signature_field signRes) (result_field signRes) of
                                None \<Rightarrow> (Inl NoSignature, w3)
                              | Some sig \<Rightarrow>
                                  (Inr (if starts_with sig ''0x'' then sig else ''0x'' @ sig), w3))))))"

section \<open>client.ts\<close>

subsection \<open>Numbers in the spending guard\<close>

text \<open>
  \<open>Number(v)\<close>: \<open>undefined\<close> gives NaN; a string of one to fifteen decimal digits gives its
  value, which a double holds exactly; every other string is left to the language's own
  conversion, the parameter \<open>stringToNumber\<close>.
\<close>

definition js_Number :: "env \<Rightarrow> string option \<Rightarrow> js_number" where
  "js_Number e v =
     (case v of
        None \<Rightarrow> NaN
      | Some s \<Rightarrow>
          if s \<noteq> [] \<and> length s \<le> 15 \<and> list_all is_digit s then Finite (of_nat (dec_value s))
          else stringToNumber e s)"

text \<open>Division by a positive finite constant; the quotient is rounded to a double.\<close>

definition js_div :: "env \<Rightarrow> js_number \<Rightarrow> rat \<Rightarrow> js_number" where
  "js_div e x d =
     (case x of
        Finite a \<Rightarrow> Finite (round_double e (a / d))
      | NaN \<Rightarrow> NaN
      | PosInf \<Rightarrow> PosInf
      | NegInf \<Rightarrow> NegInf)"

text \<open>
  \<open>x.toFixed(f)\<close> for \<open>0 < f\<close>: the integer \<open>n\<close> nearest to \<open>x * 10^f\<close> (the larger one on a
  tie), written with \<open>f\<close> digits after the point; a value of \<open>10^21\<close> or more is printed as
  \<open>String\<close> prints it.
\<close>

definition fixed_digits :: "nat \<Rightarrow> nat \<Rightarrow> string" where
  "fixed_digits f n =
     (let m = show_nat n;
          padded = (if length m \<le> f then replicate (f + 1 - length m) (CHR ''0'') @ m else m);
          k = length padded
      in take (k - f) padded @ ''.'' @ drop (k - f) padded)"

definition toFixed :: "env \<Rightarrow> js_number \<Rightarrow> nat \<Rightarrow> string" where
  "toFixed e x f =
     (case x of
        NaN \<Rightarrow> ''NaN''
      | PosInf \<Rightarrow> ''Infinity''
      | NegInf \<Rightarrow> ''-Infinity''
      | Finite q \<Rightarrow>
          (if q < 0 then ''-'' else []) @
          (if 10 ^ 21 \<le> \<bar>q\<bar> then numberToString e \<bar>q\<bar>
           else fixed_digits f (nat \<lfloor>\<bar>q\<bar> * 10 ^ f + 1 / 2\<rfloor>)))"

definition js_toString :: "env \<Rightarrow> js_number \<Rightarrow> string" where
  "js_toString e x =
     (case x of
        NaN \<Rightarrow> ''NaN''
      | PosInf \<Rightarrow> ''Infinity''
      | NegInf \<Rightarrow> ''-Infinity''
      | Finite q \<Rightarrow> numberToString e q)"

subsection \<open>Module state and the spending guard\<close>

text \<open>
  The two module-level variables of client.ts: \<open>_fetchWithPayment\<close>, the lazily created client
  (kept as the wallet id and address its signer has captured), and \<open>_currentMaxCost\<close>.
\<close>

record module_state =
  fetchWithPayment :: "(string \<times> string) option"
  currentMaxCost :: "js_number option"

definition guard_reason :: "env \<Rightarrow> js_number \<Rightarrow> js_number \<Rightarrow> string" where
  "guard_reason e costUsd cap =
     ''Service costs $'' @ toFixed e costUsd 4 @ '' per request, exceeds max_cost of $'' @
     js_toString e cap @ ''. '' @ ''Increase max_cost or choose a cheaper service.''"

text \<open>
  The hook registered with \<open>onBeforePaymentCreation\<close>. Its argument \<open>cur\<close> is the value of
  \<open>_currentMaxCost\<close> at the moment the hook runs; \<open>Some reason\<close> is
  \<open>{ abort: true, reason }\<close>, \<open>None\<close> is no return value.
\<close>

definition onBeforePaymentCreation :: "env \<Rightarrow> js_number option \<Rightarrow> PaymentRequirements \<Rightarrow> string option" where
  "onBeforePaymentCreation e cur selectedRequirements =
     (case cur of
        None \<Rightarrow> None
      | Some cap \<Rightarrow>
          let amount = maxAmountRequired selectedRequirements;
              costUsd = js_div e (js_Number e amount) 1000000
          in if js_gt costUsd cap then Some (guard_reason e costUsd cap) else None)"

definition loadWallet :: "world \<Rightarrow> WalletData option" where
  "loadWallet w = wallet_file w"

definition getFetchWithPayment :: "module_state \<Rightarrow> world \<Rightarrow> error + ((string \<times> string) \<times> module_state)" where
  "getFetchWithPayment ms w =
     (case fetchWithPayment ms of
        Some client \<Rightarrow> Inr (client, ms)
      | None \<Rightarrow>
          (case loadWallet w of
             None \<Rightarrow> Inl NoWallet
           | Some wallet \<Rightarrow>
               let client = (walletId wallet, wallet_address wallet)
               in Inr (client, ms\<lparr>fetchWithPayment := Some client\<rparr>)))"

subsection \<open>The fetch wrapped by the x402 SDK\<close>

text \<open>
  Modelled from the spec: \<open>wrapFetchWithPayment\<close> and the client it wraps belong to the x402
  SDK, which is not among the sources; client.ts only registers the signer and the hook with it.
  Its steps are those of section 4.4 of the specification and of the header of client.ts. The
  request is sent as it is. A response other than 402 is returned. On a 402 the SDK selects a
  requirement, runs the hook, and on \<open>abort\<close> throws without calling the signer; otherwise it has
  the signer sign the typed data, and sends the request once more with the payment header.
  The two halves are split at the first \<open>await\<close>, where other code of the process may run.
\<close>

definition add_header :: "request \<Rightarrow> string \<times> string \<Rightarrow> request" where
  "add_header rq h = rq\<lparr>req_headers := req_headers rq @ [h]\<rparr>"

definition wrapped_resume ::
  "env \<Rightarrow> js_number option \<Rightarrow> world \<Rightarrow> string \<times> string \<Rightarrow> request \<Rightarrow> response option \<Rightarrow> (error + response) \<times> world" where
  "wrapped_resume e cur w client rq first =
     (case first of
        None \<Rightarrow> (Inl FetchFailed, w)
      | Some r1 \<Rightarrow>
          if status r1 \<noteq> 402 then (Inr r1, w)
          else
            (case sdk_select e (accepts r1) of
               None \<Rightarrow> (Inl NoSupportedScheme, w)
             | Some sel \<Rightarrow>
                 (case onBeforePaymentCreation e cur sel of
                    Some reason \<Rightarrow> (Inl (PaymentAborted reason), w)
                  | None \<Rightarrow>
                      (case signTypedData e w (fst client) (snd client) (sdk_typed_data e sel) of
                         (Inl err, w1) \<Rightarrow> (Inl err, w1)
                       | (Inr sig, w1) \<Rightarrow>
                           (case fetch e w1 (add_header rq (sdk_payment_header e sel sig)) of
                              (None, w2) \<Rightarrow> (Inl FetchFailed, w2)
                            | (Some r2, w2) \<Rightarrow> (Inr r2, w2))))))"

definition payFetch ::
  "env \<Rightarrow> js_number option \<Rightarrow> world \<Rightarrow> string \<times> string \<Rightarrow> request \<Rightarrow> (error + response) \<times> world" where
  "payFetch e cur w client rq =
     (case fetch e w rq of (first, w1) \<Rightarrow> wrapped_resume e cur w1 client rq first)"

subsection \<open>Core fetch\<close>

text \<open>
  \<open>x402Fetch\<close> when nothing else runs between its start and its end: the hook then reads the cap
  this call has stored.
\<close>

definition x402Fetch ::
  "env \<Rightarrow> module_state \<Rightarrow> world \<Rightarrow> request \<Rightarrow> js_number option \<Rightarrow> (error + response) \<times> module_state \<times> world" where
  "x402Fetch e ms w rq maxCostUsd =
     (case getFetchWithPayment ms w of
        Inl err \<Rightarrow> (Inl err, ms, w)
      | Inr (client, ms1) \<Rightarrow>
          let ms2 = ms1\<lparr>currentMaxCost := maxCostUsd\<rparr>
          in (case payFetch e (currentMaxCost ms2) w client rq of
                (res, w1) \<Rightarrow> (res, ms2\<lparr>currentMaxCost := None\<rparr>, w1)))"

subsection \<open>Calls that overlap\<close>

text \<open>
  Node.js runs one piece of code at a time and switches between calls at an \<open>await\<close>. A call of
  \<open>x402Fetch\<close> therefore runs in three pieces: \<open>Start\<close> (create or reuse the client, store the
  cap, send the request), \<open>Resume\<close> (the SDK's continuation once the first response is there,
  hook included) and \<open>Finish\<close> (the \<open>finally\<close> block and the return). Pieces of different calls
  may alternate; each reads the module state as it is when the piece runs.
\<close>

datatype call_phase =
    InFlight "string \<times> string" request "response option"
  | Settled "error + response"
  | Returned "error + response"

datatype event = Start nat request "js_number option" | Resume nat | Finish nat

record system =
  sys_module :: module_state
  sys_world :: world
  sys_calls :: "nat \<Rightarrow> call_phase option"

fun step :: "env \<Rightarrow> system \<Rightarrow> event \<Rightarrow> system" where
  "step e s (Start i rq maxCostUsd) =
     (case getFetchWithPayment (sys_module s) (sys_world s) of
        Inl err \<Rightarrow> s\<lparr>sys_calls := (sys_calls s)(i := Some (Returned (Inl err)))\<rparr>
      | Inr (client, ms1) \<Rightarrow>
          (case fetch e (sys_world s) rq of
             (first, w1) \<Rightarrow>
               s\<lparr>sys_module := ms1\<lparr>currentMaxCost := maxCostUsd\<rparr>,
                 sys_world := w1,
                 sys_calls := (sys_calls s)(i := Some (InFlight client rq first))\<rparr>))"
| "step e s (Resume i) =
     (case sys_calls s i of
        Some (InFlight client rq first) \<Rightarrow>
          (case wrapped_resume e (currentMaxCost (sys_module s)) (sys_world s) client rq first of
             (res, w1) \<Rightarrow> s\<lparr>sys_world := w1, sys_calls := (sys_calls s)(i := Some (Settled res))\<rparr>)
      | _ \<Rightarrow> s)"
| "step e s (Finish i) =
     (case sys_calls s i of
        Some (Settled res) \<Rightarrow>
          s\<lparr>sys_module := (sys_module s)\<lparr>currentMaxCost := None\<rparr>,
            sys_calls := (sys_calls s)(i := Some (Returned res))\<rparr>
      | _ \<Rightarrow> s)"

definition run :: "env \<Rightarrow> system \<Rightarrow> event list \<Rightarrow> system" where
  "run e s evs = foldl (step e) s evs"

text \<open>Requests to the signing endpoint of the custody gateway, among those sent.\<close>

definition ends_with :: "string \<Rightarrow> string \<Rightarrow> bool" where
  "ends_with s p = (length p \<le> length s \<and> drop (length s - length p) s = p)"

definition is_sign_raw :: "request \<Rightarrow> bool" where
  "is_sign_raw rq =
     (starts_with (req_url rq) (CLARA_PROXY @ ''/api/v1/wallets/'') \<and> ends_with (req_url rq) ''/sign-raw'')"

section \<open>What a call leaves behind\<close>

text \<open>
  The requests a piece of code has sent are those the log has gained; an endpoint is a request's
  verb and address. The establishment of a session talks to three endpoints of the gateway.
\<close>

definition new_calls :: "world \<Rightarrow> world \<Rightarrow> request list" where
  "new_calls w w' = drop (length (net_log w)) (net_log w')"

definition endpoint :: "request \<Rightarrow> string \<times> string" where
  "endpoint r = (req_verb r, req_url r)"

definition session_endpoints :: "string \<Rightarrow> (string \<times> string) list" where
  "session_endpoints wid =
     [(''GET'', CLARA_PROXY @ ''/auth/nonce''),
      (''POST'', CLARA_PROXY @ ''/api/v1/wallets/'' @ wid @ ''/sign-raw''),
      (''POST'', CLARA_PROXY @ ''/auth/session'')]"

text \<open>The world after one request has been sent and answered.\<close>

definition after_send :: "env \<Rightarrow> world \<Rightarrow> request \<Rightarrow> world" where
  "after_send e w rq =
     w\<lparr>net_log := net_log w @ [rq], now := now w + int (snd (net e (net_log w) rq))\<rparr>"

text \<open>
  The canonical message of a signed request as the interface describes it: six lines, the
  protocol tag, the verb, the path, the body digest in hexadecimal after \<open>sha256:\<close>, the unix
  time in seconds and the nonce.
\<close>

definition six_lines :: "env \<Rightarrow> world \<Rightarrow> string \<Rightarrow> string \<Rightarrow> string \<Rightarrow> string list" where
  "six_lines e w verb path body =
     [''CLARA-REQUEST-SIG-V1'',
      verb,
      path,
      ''sha256:'' @ bytesToHex (sha256 e body),
      show_int (now w div 1000),
      randomUUID e (entropy w)]"

definition signature_request_message :: "env \<Rightarrow> world \<Rightarrow> string \<Rightarrow> string \<Rightarrow> string \<Rightarrow> string" where
  "signature_request_message e w verb path body =
     ''CLARA-REQUEST-SIG-V1'' @ [CHR 0x0A] @
     verb @ [CHR 0x0A] @
     path @ [CHR 0x0A] @
     ''sha256:'' @ bytesToHex (sha256 e body) @ [CHR 0x0A] @
     show_int (now w div 1000) @ [CHR 0x0A] @
     randomUUID e (entropy w)"

text \<open>What a reader gets who splits a text at the line feeds, as \<open>split\<close> does.\<close>

fun split_lines :: "string \<Rightarrow> string list" where
  "split_lines [] = [[]]"
| "split_lines (c # cs) =
     (if c = CHR 0x0A then [] # split_lines cs
      else (case split_lines cs of [] \<Rightarrow> [[c]] | l # ls \<Rightarrow> (c # l) # ls))"

text \<open>
  The module state after a sequence of calls of \<open>x402Fetch\<close> that do not overlap, each made in
  a world of its own (the world may change between calls in any way).
\<close>

fun module_after_calls :: "env \<Rightarrow> module_state \<Rightarrow> (world \<times> request \<times> js_number option) list \<Rightarrow> module_state" where
  "module_after_calls e ms [] = ms"
| "module_after_calls e ms ((w, rq, maxCostUsd) # cs) =
     module_after_calls e (fst (snd (x402Fetch e ms w rq maxCostUsd))) cs"

section \<open>A concrete environment\<close>

text \<open>
  One environment and a few worlds on which the theorems below are instantiated: a gateway that
  answers the three session endpoints, a resource that asks for one million units once and
  serves the request that carries a payment header, and any other address answering 200.
\<close>

definition blank_response :: response where
  "blank_response =
     \<lparr>status = 200, body_text = [], nonce_field = [], signature_field = None, result_field = None,
      sessionId_field = [], expiresAt_field = 0, accepts = []\<rparr>"

definition demo_requirement :: PaymentRequirements where
  "demo_requirement =
     \<lparr>scheme = ''exact'', network = ''base'', maxAmountRequired = Some ''1000000'',
      asset = ''USDC'', payTo = ''0xabc''\<rparr>"

definition demo_net :: "request list \<Rightarrow> request \<Rightarrow> response option \<times> nat" where
  "demo_net sent rq =
     (if req_url rq = CLARA_PROXY @ ''/auth/nonce''
      then (Some (blank_response\<lparr>nonce_field := ''n1''\<rparr>), 20)
      else if req_url rq = CLARA_PROXY @ ''/auth/session''
      then (Some (blank_response\<lparr>sessionId_field := ''s1'', expiresAt_field := 90000000\<rparr>), 20)
      else if req_url rq = CLARA_PROXY @ ''/api/v1/wallets/w1/sign-raw''
      then (Some (blank_response\<lparr>signature_field := Some ''0xsig''\<rparr>), 20)
      else if req_url rq = ''https://paid.example''
      then (if req_headers rq = []
            then (Some (blank_response\<lparr>status := 402, accepts := [demo_requirement]\<rparr>), 30)
            else (Some (blank_response\<lparr>body_text := ''paid''\<rparr>), 30))
      else (Some (blank_response\<lparr>body_text := ''free''\<rparr>), 10))"

definition demo_env :: env where
  "demo_env =
     \<lparr>net = demo_net,
      sha256 = (\<lambda>s. replicate 32 (of_nat (length s))),
      getPublicKey = (\<lambda>k. 4 # k),
      ecdsa_sign = (\<lambda>h k. Some (1, secp256k1_n - 1, 0)),
      randomPrivateKey = (\<lambda>i. replicate 32 (of_nat (Suc i))),
      randomUUID = (\<lambda>i. ''uuid-'' @ show_nat i),
      toISOString = show_int,
      hashMessage = (\<lambda>m. ''0xhash''),
      hashTypedData = (\<lambda>d. ''0xtyped''),
      json_quote = (\<lambda>s. CHR 0x22 # s @ [CHR 0x22]),
      numberToString = (\<lambda>q. if q = 1 / 10000 then ''0.0001'' else if q = 10 then ''10'' else ''?''),
      stringToNumber = (\<lambda>s. NaN),
      round_double = (\<lambda>q. q),
      sdk_select = (\<lambda>rs. case rs of [] \<Rightarrow> None | r # _ \<Rightarrow> Some r),
      sdk_typed_data = (\<lambda>r. ''typed''),
      sdk_payment_header = (\<lambda>r sig. (''X-PAYMENT'', sig))\<rparr>"

definition demo_wallet :: WalletData where
  "demo_wallet = \<lparr>wallet_address = ''0xAb'', walletId = ''w1''\<rparr>"

definition demo_session :: SessionData where
  "demo_session =
     \<lparr>sessionId = ''s0'', address = ''0xab'', sessionPrivateKey = ''01'', sessionPublicKey = ''04'',
      expiresAt = 5000000, createdAt = ''0''\<rparr>"

text \<open>A world at time 1000 ms whose stored session is good until 5000000 ms.\<close>

definition demo_world :: world where
  "demo_world =
     \<lparr>now = 1000, session_file = FileStored demo_session, wallet_file = Some demo_wallet,
      net_log = [], entropy = 0\<rparr>"

text \<open>The same world much later: the stored session has expired.\<close>

definition late_world :: world where
  "late_world = demo_world\<lparr>now := 1700000000000\<rparr>"

definition fresh_module :: module_state where
  "fresh_module = \<lparr>fetchWithPayment = None, currentMaxCost = None\<rparr>"

definition paid_request :: request where
  "paid_request = \<lparr>req_verb = ''GET'', req_url = ''https://paid.example'', req_headers = [], req_body = None\<rparr>"

definition free_request :: request where
  "free_request = \<lparr>req_verb = ''GET'', req_url = ''https://free.example'', req_headers = [], req_body = None\<rparr>"

definition demo_system :: system where
  "demo_system = \<lparr>sys_module = fresh_module, sys_world = demo_world, sys_calls = (\<lambda>i. None)\<rparr>"

definition demo_client :: "string \<times> string" where
  "demo_client = (''w1'', ''0xAb'')"

definition ready_module :: module_state where
  "ready_module = \<lparr>fetchWithPayment = Some demo_client, currentMaxCost = None\<rparr>"

text \<open>The module while another call with a cap of 0.0001 is in flight.\<close>

definition busy_module :: module_state where
  "busy_module = \<lparr>fetchWithPayment = Some demo_client, currentMaxCost = Some (Finite (1 / 10000))\<rparr>"

definition payment_required :: response where
  "payment_required = blank_response\<lparr>status := 402, accepts := [demo_requirement]\<rparr>"

definition abort_message :: string where
  "abort_message =
     ''Service costs $1.0000 per request, exceeds max_cost of $0.0001. Increase max_cost or choose a cheaper service.''"

text \<open>
  Request 1 asks for the paid resource under a cap of 0.0001; request 2 asks for the free one
  under a cap of 10. Alone, request 1 runs from start to end; overlapped, request 2 starts while
  request 1 waits for its first response.
\<close>

definition solo_trace :: "event list" where
  "solo_trace = [Start 1 paid_request (Some (Finite (1 / 10000))), Resume 1, Finish 1]"

definition overlapped_trace :: "event list" where
  "overlapped_trace =
     [Start 1 paid_request (Some (Finite (1 / 10000))),
      Start 2 free_request (Some (Finite 10)),
      Resume 1, Finish 1, Resume 2, Finish 2]"

definition paid_response :: response where
  "paid_response = blank_response\<lparr>body_text := ''paid''\<rparr>"

section \<open>Hexadecimal encoding\<close>

lemma hex_digit_val_hex_char: "d < 16 \<Longrightarrow> hex_digit_val (hex_char d) = Some d"
  by (auto simp: hex_digit_val_def hex_char_def Let_def)

lemma hex_char_code: "d < 16 \<Longrightarrow> (of_char (hex_char d) :: nat) = (if d < 10 then 48 + d else 87 + d)"
  by (auto simp: hex_char_def)

lemma hex_char_neq:
  assumes "d < 16" "(of_char c :: nat) \<notin> {48..57} \<union> {97..102}"
  shows "hex_char d \<noteq> c"
proof
  assume "hex_char d = c"
  then have "(of_char c :: nat) = (if d < 10 then 48 + d else 87 + d)"
    using hex_char_code [OF assms(1)] by simp
  with assms show False by (auto split: if_splits)
qed

lemma is_hex_hex_char: "d < 16 \<Longrightarrow> is_hex (hex_char d)"
  by (simp add: is_hex_def hex_digit_val_hex_char)

lemma hex_char_not_space: "d < 16 \<Longrightarrow> \<not> is_js_space (hex_char d)"
  by (auto simp: is_js_space_def hex_char_def)

lemma parseInt16_pair:
  assumes a: "a < 16" and b: "b < 16"
  shows "parseInt16 [hex_char a, hex_char b] = Some (int (16 * a + b))"
proof -
  have n1: "hex_char a \<noteq> CHR ''-''" "hex_char a \<noteq> CHR ''+''"
    by (rule hex_char_neq [OF a], simp)+
  have n2: "hex_char b \<noteq> CHR ''x''" "hex_char b \<noteq> CHR ''X''"
    by (rule hex_char_neq [OF b], simp)+
  show ?thesis
    using a b n1 n2
    by (simp add: parseInt16_def Let_def hex_char_not_space is_hex_hex_char hex_value_def
        hex_digit_val_hex_char)
qed

lemma to_uint8_pair:
  "to_uint8 (parseInt16 [hex_char (unat b div 16), hex_char (unat b mod 16)]) = (b :: byte)"
proof -
  have "unat b < 256" using unsigned_less [of b] by simp
  then have "unat b div 16 < 16" by simp
  then show ?thesis
    by (simp add: parseInt16_pair to_uint8_def)
qed

lemma hex_pairs_bytesToHex: "hex_pairs (bytesToHex bs) = bs"
  by (induction bs) (simp_all add: bytesToHex_def to_uint8_pair)

lemma bytesToHex_no_prefix: "\<not> starts_with (bytesToHex bs) ''0x''"
proof (cases bs)
  case Nil
  then show ?thesis by (simp add: bytesToHex_def starts_with_def)
next
  case (Cons b rest)
  have "unat b mod 16 < 16" by simp
  then have "hex_char (unat b mod 16) \<noteq> CHR ''x''"
    by (rule hex_char_neq) simp
  then show ?thesis using Cons by (simp add: bytesToHex_def starts_with_def)
qed

text \<open>Decoding what \<open>bytesToHex\<close> wrote gives the bytes back.\<close>

lemma hexToBytes_bytesToHex: "hexToBytes (bytesToHex bs) = bs"
  by (simp add: hexToBytes_def bytesToHex_no_prefix hex_pairs_bytesToHex)

lemma hexToBytes_0x_bytesToHex: "hexToBytes (''0x'' @ bytesToHex bs) = bs"
  by (simp add: hexToBytes_def starts_with_def hex_pairs_bytesToHex)

lemma length_bytesToHex: "length (bytesToHex bs) = 2 * length bs"
  by (induction bs) (simp_all add: bytesToHex_def)

lemma length_be_bytes: "length (be_bytes k v) = k"
  by (induction k arbitrary: v) simp_all

section \<open>Lines\<close>

lemma split_lines_no_feed: "CHR 0x0A \<notin> set a \<Longrightarrow> split_lines a = [a]"
  by (induction a) auto

lemma split_lines_append:
  "CHR 0x0A \<notin> set a \<Longrightarrow> split_lines (a @ CHR 0x0A # rest) = a # split_lines rest"
  by (induction a) auto

lemma join_Cons2: "join sep (x # y # ys) = x @ sep @ join sep (y # ys)"
  by (simp add: join_def)

text \<open>Joining lines that hold no line feed and splitting the result gives the lines back.\<close>

lemma split_lines_join:
  "ls \<noteq> [] \<Longrightarrow> \<forall>l \<in> set ls. CHR 0x0A \<notin> set l \<Longrightarrow> split_lines (join [CHR 0x0A] ls) = ls"
proof (induction ls rule: induct_list012)
  case 1
  then show ?case by simp
next
  case (2 x)
  then show ?case by (simp add: join_def split_lines_no_feed)
next
  case (3 x y zs)
  then show ?case by (simp add: join_Cons2 split_lines_append)
qed

lemma digit_char_no_feed: "d < 10 \<Longrightarrow> digit_char d \<noteq> CHR 0x0A"
  by (auto simp: digit_char_def char_of_eq_iff take_bit_eq_mod)

lemma show_nat_no_feed: "CHR 0x0A \<notin> set (show_nat n)"
proof (induction n rule: show_nat.induct)
  case (1 n)
  show ?case
  proof (cases "n < 10")
    case True
    then show ?thesis
      using digit_char_no_feed [of n] by (subst show_nat.simps) auto
  next
    case False
    have "n mod 10 < 10" by simp
    then have "digit_char (n mod 10) \<noteq> CHR 0x0A" by (rule digit_char_no_feed)
    then show ?thesis
      using False 1 by (subst show_nat.simps) auto
  qed
qed

lemma show_int_no_feed: "CHR 0x0A \<notin> set (show_int i)"
  by (simp add: show_int_def show_nat_no_feed)

lemma bytesToHex_no_feed: "CHR 0x0A \<notin> set (bytesToHex bs)"
proof -
  have digit: "CHR 0x0A \<noteq> hex_char d" if "d < 16" for d
    using that hex_char_neq [of d "CHR 0x0A"] by auto
  have hi: "unat b div 16 < 16" for b :: byte
  proof -
    have "unat b < 256" using unsigned_less [of b] by simp
    then show ?thesis by simp
  qed
  have lo: "unat b mod 16 < 16" for b :: byte
    by simp
  show ?thesis
    by (induction bs) (simp_all add: bytesToHex_def digit [OF hi] digit [OF lo])
qed

lemma show_nat_8453: "show_nat 8453 = ''8453''"
  by (simp add: show_nat.simps digit_char_def char_of_eq_iff)

section \<open>The delegation message\<close>

text \<open>
  C7. For every address, nonce, session public key and expiration time, the message built for
  the delegation signature is the fixed sign-in template: the domain header line, the address, an
  empty line, the statement "Delegate signing authority to session key: " followed by the session
  public key, an empty line, and then the lines URI, Version: 1, Chain ID, Nonce, Issued At and
  Expiration Time, in this order, separated by single line feeds. The domain is
  clara-proxy.bflynn-me.workers.dev, the URI is https:// followed by the domain, the chain id is
  8453, and the issue time is the clock's time in ISO format. When no argument holds a line feed,
  splitting the message at the line feeds gives exactly these eleven lines.
\<close>

theorem constructSiweMessage_template:
  "constructSiweMessage e w addr nonce sessionPubKey expirationTime =
     ''clara-proxy.bflynn-me.workers.dev wants you to sign in with your Ethereum account:'' @ [CHR 0x0A] @
     addr @ [CHR 0x0A] @
     [CHR 0x0A] @
     ''Delegate signing authority to session key: '' @ sessionPubKey @ [CHR 0x0A] @
     [CHR 0x0A] @
     ''URI: https://clara-proxy.bflynn-me.workers.dev'' @ [CHR 0x0A] @
     ''Version: 1'' @ [CHR 0x0A] @
     ''Chain ID: 8453'' @ [CHR 0x0A] @
     ''Nonce: '' @ nonce @ [CHR 0x0A] @
     ''Issued At: '' @ toISOString e (now w) @ [CHR 0x0A] @
     ''Expiration Time: '' @ expirationTime
   \<and> (CHR 0x0A \<notin> set addr \<union> set nonce \<union> set sessionPubKey \<union> set expirationTime
             \<union> set (toISOString e (now w)) \<longrightarrow>
        split_lines (constructSiweMessage e w addr nonce sessionPubKey expirationTime) =
          [''clara-proxy.bflynn-me.workers.dev wants you to sign in with your Ethereum account:'',
           addr,
           [],
           ''Delegate signing authority to session key: '' @ sessionPubKey,
           [],
           ''URI: https://clara-proxy.bflynn-me.workers.dev'',
           ''Version: 1'',
           ''Chain ID: 8453'',
           ''Nonce: '' @ nonce,
           ''Issued At: '' @ toISOString e (now w),
           ''Expiration Time: '' @ expirationTime])"
proof -
  have "constructSiweMessage e w addr nonce sessionPubKey expirationTime =
     ''clara-proxy.bflynn-me.workers.dev wants you to sign in with your Ethereum account:'' @ [CHR 0x0A] @
     addr @ [CHR 0x0A] @
     [CHR 0x0A] @
     ''Delegate signing authority to session key: '' @ sessionPubKey @ [CHR 0x0A] @
     [CHR 0x0A] @
     ''URI: https://clara-proxy.bflynn-me.workers.dev'' @ [CHR 0x0A] @
     ''Version: 1'' @ [CHR 0x0A] @
     ''Chain ID: 8453'' @ [CHR 0x0A] @
     ''Nonce: '' @ nonce @ [CHR 0x0A] @
     ''Issued At: '' @ toISOString e (now w) @ [CHR 0x0A] @
     ''Expiration Time: '' @ expirationTime"
    by (simp add: constructSiweMessage_def join_def show_nat_8453)
  moreover have "split_lines (constructSiweMessage e w addr nonce sessionPubKey expirationTime) =
          [''clara-proxy.bflynn-me.workers.dev wants you to sign in with your Ethereum account:'',
           addr,
           [],
           ''Delegate signing authority to session key: '' @ sessionPubKey,
           [],
           ''URI: https://clara-proxy.bflynn-me.workers.dev'',
           ''Version: 1'',
           ''Chain ID: 8453'',
           ''Nonce: '' @ nonce,
           ''Issued At: '' @ toISOString e (now w),
           ''Expiration Time: '' @ expirationTime]"
    if "CHR 0x0A \<notin> set addr \<union> set nonce \<union> set sessionPubKey \<union> set expirationTime
             \<union> set (toISOString e (now w))"
    using that
    by (simp add: constructSiweMessage_def Let_def split_lines_join show_nat_8453)
  ultimately show ?thesis by blast
qed

lemma show_int_1000: "show_int 1000 = ''1000''"
  by (simp add: show_int_def show_nat.simps digit_char_def char_of_eq_iff)

theorem constructSiweMessage_template_witness:
  "CHR 0x0A \<notin> set ''0xAb'' \<union> set ''n1'' \<union> set ''04'' \<union> set ''2030''
       \<union> set (toISOString demo_env (now demo_world))
   \<and> split_lines (constructSiweMessage demo_env demo_world ''0xAb'' ''n1'' ''04'' ''2030'') =
       [''clara-proxy.bflynn-me.workers.dev wants you to sign in with your Ethereum account:'',
        ''0xAb'',
        [],
        ''Delegate signing authority to session key: 04'',
        [],
        ''URI: https://clara-proxy.bflynn-me.workers.dev'',
        ''Version: 1'',
        ''Chain ID: 8453'',
        ''Nonce: n1'',
        ''Issued At: 1000'',
        ''Expiration Time: 2030'']"
proof -
  have iso: "toISOString demo_env (now demo_world) = ''1000''"
    by (simp add: demo_env_def demo_world_def show_int_1000)
  have free: "CHR 0x0A \<notin> set ''0xAb'' \<union> set ''n1'' \<union> set ''04'' \<union> set ''2030''
       \<union> set (toISOString demo_env (now demo_world))"
    by (simp add: iso)
  show ?thesis
    using free constructSiweMessage_template [of demo_env demo_world "''0xAb''" "''n1''" "''04''" "''2030''"]
    by (simp add: iso)
qed

section \<open>Sessions\<close>

lemma fetch_eq: "fetch e w rq = (fst (net e (net_log w) rq), after_send e w rq)"
  by (simp add: fetch_def after_send_def split: prod.splits)

lemma endpoint_simps:
  "endpoint nonce_request = (''GET'', CLARA_PROXY @ ''/auth/nonce'')"
  "endpoint (bootstrap_sign_request e wid addr h) =
     (''POST'', CLARA_PROXY @ ''/api/v1/wallets/'' @ wid @ ''/sign-raw'')"
  "endpoint (session_request e m sg pk) = (''POST'', CLARA_PROXY @ ''/auth/session'')"
  by (simp_all add: endpoint_def nonce_request_def bootstrap_sign_request_def session_request_def)


lemma establishSession_success:
  assumes "establishSession e w wid addr = (Inr s, w')"
  shows "map endpoint (new_calls w w') = session_endpoints wid"
    and "session_file w' = FileStored s"
    and "\<exists>ext. net_log w' = net_log w @ ext"
    and "\<exists>sessionRes. fst (net e (butlast (net_log w')) (last (net_log w'))) = Some sessionRes
            \<and> ok sessionRes \<and> expiresAt s = expiresAt_field sessionRes"
  using assms
  by (auto simp add: establishSession_def fetch_eq after_send_def generateSessionKeypair_def
      writeSessionFile_def new_calls_def session_endpoints_def endpoint_simps Let_def
      butlast_append
      split: option.splits session_store.splits if_splits)




lemma establishSession_failure:
  assumes "establishSession e w wid addr = (Inl err, w')"
  shows "session_file w' = session_file w"
  using assms
  by (auto simp add: establishSession_def fetch_eq after_send_def generateSessionKeypair_def
      writeSessionFile_def Let_def split: option.splits session_store.splits if_splits)

lemma demo_establish:
  "\<exists>s w'. establishSession demo_env late_world ''w1'' ''0xAb'' = (Inr s, w')
      \<and> expiresAt s = 90000000 \<and> now w' = 1700000000060"
  by (simp add: establishSession_def fetch_eq after_send_def generateSessionKeypair_def
      writeSessionFile_def Let_def demo_env_def demo_net_def late_world_def demo_world_def
      CLARA_PROXY_def nonce_request_def bootstrap_sign_request_def session_request_def
      blank_response_def ok_def truthy_or_def)

lemma demo_late_expired:
  "session_file late_world = FileStored demo_session"
  "expiresAt demo_session \<le> now late_world + bufferMs"
  by (simp_all add: late_world_def demo_world_def demo_session_def bufferMs_def)

text \<open>
  C5. If a session is stored whose \<open>expiresAt\<close> lies more than the five-minute buffer after
  now, \<open>getSession\<close> returns that very record and leaves the world as it was: no request is
  sent. A second call in the world the first one left returns the same record, again without a
  request.
\<close>

theorem getSession_reuse:
  assumes "session_file w = FileStored s" and "now w + bufferMs < expiresAt s"
  shows "getSession e w wid addr = (Inr s, w)
       \<and> getSession e (snd (getSession e w wid addr)) wid addr = (Inr s, w)
       \<and> net_log (snd (getSession e w wid addr)) = net_log w"
  using assms by (simp add: getSession_def)

theorem getSession_reuse_witness:
  "session_file demo_world = FileStored demo_session
     \<and> now demo_world + bufferMs < expiresAt demo_session
     \<and> getSession demo_env demo_world ''w1'' ''0xAb'' = (Inr demo_session, demo_world)
     \<and> getSession demo_env (snd (getSession demo_env demo_world ''w1'' ''0xAb'')) ''w1'' ''0xAb''
         = (Inr demo_session, demo_world)
     \<and> net_log (snd (getSession demo_env demo_world ''w1'' ''0xAb'')) = net_log demo_world"
proof -
  have h1: "session_file demo_world = FileStored demo_session"
    by (simp add: demo_world_def)
  have h2: "now demo_world + bufferMs < expiresAt demo_session"
    by (simp add: demo_world_def demo_session_def bufferMs_def)
  show ?thesis
    using h1 h2 getSession_reuse [OF h1 h2, of demo_env "''w1''" "''0xAb''"] by simp
qed

text \<open>
  C3, as the specification states it, fails: a stored session that has expired is replaced by a
  fresh one, and the fresh record is returned with the \<open>expiresAt\<close> of the gateway's answer,
  which the code never compares with the clock. Here the gateway grants a session until
  90000000 ms while the clock stands at 1700000000060 ms.
\<close>

theorem getSession_fresh_not_checked:
  "\<exists>s w'. getSession demo_env late_world ''w1'' ''0xAb'' = (Inr s, w')
      \<and> \<not> (now w' + bufferMs < expiresAt s)"
proof -
  obtain s w' where "establishSession demo_env late_world ''w1'' ''0xAb'' = (Inr s, w')"
    and "expiresAt s = 90000000" and "now w' = 1700000000060"
    using demo_establish by blast
  moreover have "getSession demo_env late_world ''w1'' ''0xAb''
      = establishSession demo_env late_world ''w1'' ''0xAb''"
    using demo_late_expired by (simp add: getSession_def)
  ultimately show ?thesis by (simp add: bufferMs_def)
qed

text \<open>
  C3, amended. A record that \<open>getSession\<close> returns is either the stored one, returned without
  any change to the world and with \<open>expiresAt\<close> more than the buffer after now, or the result of
  a fresh establishment, and then its \<open>expiresAt\<close> is the one in the gateway's answer to the
  last request sent, the session creation.
\<close>

theorem getSession_validity:
  assumes "getSession e w wid addr = (Inr s, w')"
  shows "(session_file w = FileStored s \<and> w' = w \<and> now w' + bufferMs < expiresAt s)
       \<or> (establishSession e w wid addr = (Inr s, w')
          \<and> (\<exists>sessionRes. fst (net e (butlast (net_log w')) (last (net_log w'))) = Some sessionRes
                \<and> endpoint (last (net_log w')) = (''POST'', CLARA_PROXY @ ''/auth/session'')
                \<and> expiresAt s = expiresAt_field sessionRes))"
proof (cases "\<exists>s0. session_file w = FileStored s0 \<and> now w + bufferMs < expiresAt s0")
  case True
  then show ?thesis using assms by (auto simp: getSession_def)
next
  case False
  then have est: "establishSession e w wid addr = (Inr s, w')"
    using assms by (auto simp: getSession_def split: session_store.splits if_splits)
  have "last (new_calls w w') = last (net_log w')" "new_calls w w' \<noteq> []"
    using establishSession_success(1,3) [OF est]
    by (auto simp: new_calls_def session_endpoints_def)
  then have "endpoint (last (net_log w')) = last (map endpoint (new_calls w w'))"
    by (simp add: last_map)
  then have "endpoint (last (net_log w')) = (''POST'', CLARA_PROXY @ ''/auth/session'')"
    using establishSession_success(1) [OF est] by (simp add: session_endpoints_def)
  then show ?thesis
    using est establishSession_success(4) [OF est] by blast
qed

theorem getSession_validity_witness:
  "\<exists>s w'. getSession demo_env late_world ''w1'' ''0xAb'' = (Inr s, w')
     \<and> ((session_file late_world = FileStored s \<and> w' = late_world \<and> now w' + bufferMs < expiresAt s)
       \<or> (establishSession demo_env late_world ''w1'' ''0xAb'' = (Inr s, w')
          \<and> (\<exists>sessionRes.
                fst (net demo_env (butlast (net_log w')) (last (net_log w'))) = Some sessionRes
                \<and> endpoint (last (net_log w')) = (''POST'', CLARA_PROXY @ ''/auth/session'')
                \<and> expiresAt s = expiresAt_field sessionRes)))"
proof -
  obtain s w' where est: "establishSession demo_env late_world ''w1'' ''0xAb'' = (Inr s, w')"
    using demo_establish by blast
  have "getSession demo_env late_world ''w1'' ''0xAb'' = (Inr s, w')"
    using est demo_late_expired by (simp add: getSession_def)
  then show ?thesis
    using getSession_validity [of demo_env late_world "''w1''" "''0xAb''" s w'] by blast
qed



section \<open>Signed requests\<close>

lemma length_toCompactRawBytes: "length (toCompactRawBytes sg) = 64"
  by (simp add: toCompactRawBytes_def length_be_bytes split: prod.splits)

lemma fullSig_eq: "(toCompactRawBytes sg @ [z])[64 := v] = toCompactRawBytes sg @ [v]"
  by (simp add: list_update_append length_toCompactRawBytes)

lemma canonicalMessage_flat:
  "canonicalMessage verb path (bytesToHex (sha256 e body)) (show_int (now w div 1000))
       (randomUUID e (entropy w))
     = signature_request_message e w verb path body"
  by (simp add: canonicalMessage_def join_def signature_request_message_def)

text \<open>
  \<open>signRequest\<close> in one equation: the bytes signed are the SHA-256 digest of the canonical
  message (the hexadecimal detour through \<open>sha256hex\<close> and \<open>hexToBytes\<close> gives the digest
  back), the 65-byte array is never overrun, and its last byte is the recovery id plus 27.
\<close>

lemma signRequest_eq:
  "signRequest e w session verb path body =
     (case signAsync e (sha256 e (signature_request_message e w verb path body))
             (hexToBytes (sessionPrivateKey session)) True of
        None \<Rightarrow> (Inl SigningRejected, w\<lparr>entropy := Suc (entropy w)\<rparr>)
      | Some sg \<Rightarrow>
          (Inr [(''X-Clara-Address'', address session),
                (''X-Clara-Session'', sessionId session),
                (''X-Clara-Signature'',
                   ''0x'' @ bytesToHex (toCompactRawBytes sg @ [of_nat (snd (snd sg) + 27)])),
                (''X-Clara-Timestamp'', show_int (now w div 1000)),
                (''X-Clara-Nonce'', randomUUID e (entropy w))],
           w\<lparr>entropy := Suc (entropy w)\<rparr>))"
  by (simp add: signRequest_def Let_def canonicalMessage_flat hexToBytes_bytesToHex
      uint8_set_def length_toCompactRawBytes fullSig_eq sha256hex_def
      split: option.splits)

lemma low_s_bound:
  assumes "s0 < secp256k1_n" "secp256k1_n div 2 < s0"
  shows "(secp256k1_n - s0 mod secp256k1_n) mod secp256k1_n \<le> secp256k1_n div 2"
  using assms by (simp add: secp256k1_n_def)

lemma signAsync_low_s:
  assumes "signAsync e h k True = Some (r, s, v)"
    and "ecdsa_sign e h k = Some (r0, s0, v0)" and "s0 < secp256k1_n"
  shows "s \<le> secp256k1_n div 2"
  using assms low_s_bound [of s0]
  by (auto simp: signAsync_def split: if_splits)

lemma demo_signAsync: "signAsync demo_env h k True = Some (1, 1, 1)"
  by (simp add: signAsync_def demo_env_def secp256k1_n_def flip_bit0_def)

text \<open>
  C8. For every session, verb, path and body, \<open>signRequest\<close> builds the canonical message of
  exactly six lines joined by line feeds (the tag CLARA-REQUEST-SIG-V1, the verb, the path,
  "sha256:" with the hexadecimal SHA-256 digest of the body, the unix time in seconds, a random
  nonce), hashes it with SHA-256, has the session's private key sign the hash, and returns
  exactly the five headers address, session id, signature, timestamp and nonce. When the
  signing library rejects its input, the call fails and returns no header. When the verb, the
  path and the nonce hold no line feed, splitting the canonical message at the line feeds gives
  exactly the six lines.
\<close>

theorem signRequest_headers:
  "signRequest e w session verb path body =
     (case signAsync e (sha256 e (signature_request_message e w verb path body))
             (hexToBytes (sessionPrivateKey session)) True of
        None \<Rightarrow> (Inl SigningRejected, w\<lparr>entropy := Suc (entropy w)\<rparr>)
      | Some sg \<Rightarrow>
          (Inr [(''X-Clara-Address'', address session),
                (''X-Clara-Session'', sessionId session),
                (''X-Clara-Signature'',
                   ''0x'' @ bytesToHex (toCompactRawBytes sg @ [of_nat (snd (snd sg) + 27)])),
                (''X-Clara-Timestamp'', show_int (now w div 1000)),
                (''X-Clara-Nonce'', randomUUID e (entropy w))],
           w\<lparr>entropy := Suc (entropy w)\<rparr>))
   \<and> signature_request_message e w verb path body = join [CHR 0x0A] (six_lines e w verb path body)
   \<and> length (six_lines e w verb path body) = 6
   \<and> (CHR 0x0A \<notin> set verb \<union> set path \<union> set (randomUUID e (entropy w)) \<longrightarrow>
        split_lines (signature_request_message e w verb path body) = six_lines e w verb path body)"
proof -
  have flat: "signature_request_message e w verb path body
      = join [CHR 0x0A] (six_lines e w verb path body)"
    by (simp add: signature_request_message_def six_lines_def join_def)
  have "split_lines (join [CHR 0x0A] (six_lines e w verb path body)) = six_lines e w verb path body"
    if "CHR 0x0A \<notin> set verb \<union> set path \<union> set (randomUUID e (entropy w))"
    using that
    by (simp add: split_lines_join six_lines_def bytesToHex_no_feed show_int_no_feed)
  then show ?thesis
    using flat by (simp add: signRequest_eq six_lines_def)
qed

lemma demo_uuid: "randomUUID demo_env (entropy demo_world) = ''uuid-0''"
  by (simp add: demo_env_def demo_world_def show_nat.simps digit_char_def char_of_eq_iff)

lemma demo_timestamp: "show_int (now demo_world div 1000) = ''1''"
  by (simp add: demo_world_def show_int_def show_nat.simps digit_char_def char_of_eq_iff)

theorem signRequest_headers_witness:
  "CHR 0x0A \<notin> set ''POST'' \<union> set ''/p'' \<union> set (randomUUID demo_env (entropy demo_world))
   \<and> split_lines (signature_request_message demo_env demo_world ''POST'' ''/p'' ''{}'')
       = six_lines demo_env demo_world ''POST'' ''/p'' ''{}''
   \<and> (\<exists>sg. fst (signRequest demo_env demo_world demo_session ''POST'' ''/p'' ''{}'') =
         Inr [(''X-Clara-Address'', ''0xab''),
              (''X-Clara-Session'', ''s0''),
              (''X-Clara-Signature'', sg),
              (''X-Clara-Timestamp'', ''1''),
              (''X-Clara-Nonce'', ''uuid-0'')])"
proof -
  have free: "CHR 0x0A \<notin> set ''POST'' \<union> set ''/p'' \<union> set (randomUUID demo_env (entropy demo_world))"
    by (simp add: demo_uuid)
  note inst = signRequest_headers [of demo_env demo_world demo_session "''POST''" "''/p''" "''{}''"]
  have lines: "split_lines (signature_request_message demo_env demo_world ''POST'' ''/p'' ''{}'')
      = six_lines demo_env demo_world ''POST'' ''/p'' ''{}''"
    using inst free by blast
  have "signRequest demo_env demo_world demo_session ''POST'' ''/p'' ''{}'' =
      (Inr [(''X-Clara-Address'', address demo_session),
            (''X-Clara-Session'', sessionId demo_session),
            (''X-Clara-Signature'',
               ''0x'' @ bytesToHex (toCompactRawBytes (1, 1, 1) @ [of_nat (snd (snd (1 :: nat, 1 :: nat, 1 :: nat)) + 27)])),
            (''X-Clara-Timestamp'', show_int (now demo_world div 1000)),
            (''X-Clara-Nonce'', randomUUID demo_env (entropy demo_world))],
       demo_world\<lparr>entropy := Suc (entropy demo_world)\<rparr>)"
    using inst by (simp add: demo_signAsync)
  then have hdrs: "\<exists>sg. fst (signRequest demo_env demo_world demo_session ''POST'' ''/p'' ''{}'') =
         Inr [(''X-Clara-Address'', ''0xab''),
              (''X-Clara-Session'', ''s0''),
              (''X-Clara-Signature'', sg),
              (''X-Clara-Timestamp'', ''1''),
              (''X-Clara-Nonce'', ''uuid-0'')]"
    by (simp add: demo_uuid demo_timestamp demo_session_def)
  show ?thesis
    using free lines hdrs by blast
qed

text \<open>
  C9. The signature header of a signed request is "0x" followed by the hexadecimal form of 65
  bytes: \<open>r\<close> in 32 big-endian bytes, \<open>s\<close> in 32 big-endian bytes, and the recovery id plus
  27; it has 132 characters. \<open>s\<close> is at most half the group order whenever the curve arithmetic
  produced an \<open>s\<close> below the group order.
\<close>

theorem signature_encoding:
  assumes "signRequest e w session verb path body = (Inr hdrs, w')"
  shows "\<exists>r s v sg.
           signAsync e (sha256 e (signature_request_message e w verb path body))
             (hexToBytes (sessionPrivateKey session)) True = Some (r, s, v)
         \<and> map_of hdrs ''X-Clara-Signature'' = Some sg
         \<and> sg = ''0x'' @ bytesToHex (be_bytes 32 r @ be_bytes 32 s @ [of_nat (v + 27)])
         \<and> length sg = 132
         \<and> hexToBytes sg = be_bytes 32 r @ be_bytes 32 s @ [of_nat (v + 27)]
         \<and> length (hexToBytes sg) = 65
         \<and> (\<forall>r0 s0 v0.
               ecdsa_sign e (sha256 e (signature_request_message e w verb path body))
                 (hexToBytes (sessionPrivateKey session)) = Some (r0, s0, v0)
               \<and> s0 < secp256k1_n \<longrightarrow> s \<le> secp256k1_n div 2)"
proof -
  let ?h = "sha256 e (signature_request_message e w verb path body)"
  let ?k = "hexToBytes (sessionPrivateKey session)"
  obtain r s v where sg: "signAsync e ?h ?k True = Some (r, s, v)"
    using assms by (cases "signAsync e ?h ?k True") (auto simp: signRequest_eq)
  let ?bytes = "be_bytes 32 r @ be_bytes 32 s @ [of_nat (v + 27) :: byte]"
  have hdr: "map_of hdrs ''X-Clara-Signature'' = Some (''0x'' @ bytesToHex ?bytes)"
    using assms sg by (auto simp: signRequest_eq toCompactRawBytes_def)
  have len: "length (''0x'' @ bytesToHex ?bytes) = 132"
    by (simp add: length_bytesToHex length_be_bytes)
  have rt: "hexToBytes (''0x'' @ bytesToHex ?bytes) = ?bytes"
    by (rule hexToBytes_0x_bytesToHex)
  have low: "s \<le> secp256k1_n div 2"
    if "ecdsa_sign e ?h ?k = Some (r0, s0, v0)" "s0 < secp256k1_n" for r0 s0 v0
    using signAsync_low_s [OF sg that] .
  show ?thesis
    using sg hdr len rt low by (auto simp: length_be_bytes)
qed

theorem signature_encoding_witness:
  "\<exists>hdrs w' sg.
     signRequest demo_env demo_world demo_session ''POST'' ''/p'' ''{}'' = (Inr hdrs, w')
     \<and> map_of hdrs ''X-Clara-Signature'' = Some sg
     \<and> length sg = 132
     \<and> hexToBytes sg = be_bytes 32 1 @ be_bytes 32 1 @ [28]"
proof -
  obtain hdrs w' where run: "signRequest demo_env demo_world demo_session ''POST'' ''/p'' ''{}'' = (Inr hdrs, w')"
    by (simp add: signRequest_eq demo_signAsync)
  from signature_encoding [OF run] obtain r s v sg where
    "signAsync demo_env (sha256 demo_env (signature_request_message demo_env demo_world ''POST'' ''/p'' ''{}''))
       (hexToBytes (sessionPrivateKey demo_session)) True = Some (r, s, v)"
    and "map_of hdrs ''X-Clara-Signature'' = Some sg" and "length sg = 132"
    and "hexToBytes sg = be_bytes 32 r @ be_bytes 32 s @ [of_nat (v + 27)]"
    by blast
  then show ?thesis
    using run by (auto simp: demo_signAsync)
qed

section \<open>The payment client\<close>

lemma x402Fetch_aborted:
  assumes "getFetchWithPayment ms w = Inr (client, ms1)"
    and "fst (net e (net_log w) rq) = Some r1" and "status r1 = 402"
    and "sdk_select e (accepts r1) = Some sel"
    and "js_gt (js_div e (js_Number e (maxAmountRequired sel)) 1000000) cap"
  shows "x402Fetch e ms w rq (Some cap) =
           (Inl (PaymentAborted
                  (guard_reason e (js_div e (js_Number e (maxAmountRequired sel)) 1000000) cap)),
            ms1\<lparr>currentMaxCost := None\<rparr>, after_send e w rq)"
  using assms
  by (simp add: x402Fetch_def payFetch_def fetch_eq wrapped_resume_def
      onBeforePaymentCreation_def Let_def)


lemma cost_one_million:
  assumes "round_double e 1 = 1"
  shows "js_div e (js_Number e (Some ''1000000'')) 1000000 = Finite 1"
  using assms
  by (simp add: js_div_def js_Number_def is_digit_def dec_value_def)

lemma floor_20001_half: "\<lfloor>(20001::rat) / 2\<rfloor> = 10000"
  by (simp add: floor_eq_iff)

lemma show_nat_10000: "show_nat 10000 = ''10000''"
  by (simp add: show_nat.simps digit_char_def char_of_eq_iff)

lemma toFixed_one: "toFixed e (Finite 1) 4 = ''1.0000''"
  by (simp add: toFixed_def floor_20001_half fixed_digits_def show_nat_10000)

lemma demo_getFetch:
  "getFetchWithPayment fresh_module demo_world = Inr (demo_client, ready_module)"
  "getFetchWithPayment ready_module w = Inr (demo_client, ready_module)"
  "getFetchWithPayment busy_module w = Inr (demo_client, busy_module)"
  by (simp_all add: getFetchWithPayment_def fresh_module_def demo_world_def loadWallet_def
      demo_wallet_def demo_client_def ready_module_def busy_module_def Let_def)

lemma demo_first_paid: "net demo_env sent paid_request = (Some payment_required, 30)"
  by (simp add: demo_env_def demo_net_def paid_request_def CLARA_PROXY_def payment_required_def)

lemma demo_first_free:
  "net demo_env sent free_request = (Some (blank_response\<lparr>body_text := ''free''\<rparr>), 10)"
  by (simp add: demo_env_def demo_net_def free_request_def CLARA_PROXY_def)

lemma demo_select: "sdk_select demo_env (accepts payment_required) = Some demo_requirement"
  by (simp add: demo_env_def payment_required_def)

lemma demo_cost:
  "js_div demo_env (js_Number demo_env (maxAmountRequired demo_requirement)) 1000000 = Finite 1"
  using cost_one_million [of demo_env]
  by (simp add: demo_requirement_def demo_env_def)

lemma demo_reason: "guard_reason demo_env (Finite 1) (Finite (1 / 10000)) = abort_message"
  by (simp add: guard_reason_def toFixed_one js_toString_def demo_env_def abort_message_def)

text \<open>
  The guard in a call of \<open>x402Fetch\<close> that no other call overlaps; what overlapping calls do
  to it is shown in the section on overlapping calls. Let a client exist (or a wallet
  to create it from), let the first response be a 402 whose selected requirement has a cost, its
  \<open>maxAmountRequired\<close> divided by \<open>10^6\<close>, that is greater than the cap passed to
  \<open>x402Fetch\<close>. Then the call fails with the abort of the payment, whose
  reason names the cost with four decimals and the cap; the only request sent is the caller's
  own, so none goes to the custody gateway; the session file and the random sources are
  untouched. With an amount of 1000000 units (and a division that gives the double 1 for the
  quotient 1) the cost is reported as 1.0000, whatever the cap.
\<close>

lemma spending_cap_enforced:
  assumes "getFetchWithPayment ms w = Inr (client, ms1)"
    and "fst (net e (net_log w) rq) = Some r1" and "status r1 = 402"
    and "sdk_select e (accepts r1) = Some sel"
    and "cost = js_div e (js_Number e (maxAmountRequired sel)) 1000000"
    and "js_gt cost cap"
  shows "fst (x402Fetch e ms w rq (Some cap)) =
           Inl (PaymentAborted
                 (''Service costs $'' @ toFixed e cost 4 @ '' per request, exceeds max_cost of $'' @
                  js_toString e cap @ ''. Increase max_cost or choose a cheaper service.''))
       \<and> net_log (snd (snd (x402Fetch e ms w rq (Some cap)))) = net_log w @ [rq]
       \<and> session_file (snd (snd (x402Fetch e ms w rq (Some cap)))) = session_file w
       \<and> entropy (snd (snd (x402Fetch e ms w rq (Some cap)))) = entropy w
       \<and> (maxAmountRequired sel = Some ''1000000'' \<and> round_double e 1 = 1 \<longrightarrow>
            toFixed e cost 4 = ''1.0000'')"
proof -
  have "x402Fetch e ms w rq (Some cap) =
          (Inl (PaymentAborted (guard_reason e cost cap)), ms1\<lparr>currentMaxCost := None\<rparr>,
           after_send e w rq)"
    using assms x402Fetch_aborted [of ms w client ms1 e rq r1 sel cap] by simp
  moreover have "toFixed e cost 4 = ''1.0000''"
    if "maxAmountRequired sel = Some ''1000000''" "round_double e 1 = 1"
    using that assms(5) cost_one_million [of e] by (simp add: toFixed_one)
  ultimately show ?thesis
    by (simp add: guard_reason_def after_send_def)
qed

lemma spending_cap_enforced_scenario:
  "fst (x402Fetch demo_env fresh_module demo_world paid_request (Some (Finite (1 / 10000)))) =
     Inl (PaymentAborted
       ''Service costs $1.0000 per request, exceeds max_cost of $0.0001. Increase max_cost or choose a cheaper service.'')
   \<and> net_log (snd (snd (x402Fetch demo_env fresh_module demo_world paid_request
        (Some (Finite (1 / 10000)))))) = [paid_request]"
proof -
  have first: "fst (net demo_env (net_log demo_world) paid_request) = Some payment_required"
    by (simp add: demo_first_paid)
  have st: "status payment_required = 402"
    by (simp add: payment_required_def blank_response_def)
  have gt: "js_gt (Finite 1) (Finite (1 / 10000))" by simp
  have empty: "net_log demo_world = []" by (simp add: demo_world_def)
  have cap: "js_toString demo_env (Finite (1 / 10000)) = ''0.0001''"
    by (simp add: js_toString_def demo_env_def)
  show ?thesis
    using spending_cap_enforced [OF demo_getFetch(1) first st demo_select demo_cost [symmetric] gt]
    by (simp add: toFixed_one cap empty)
qed




section \<open>Overlapping calls\<close>

lemma demo_signTypedData:
  assumes "session_file w = FileStored demo_session" and "now w + bufferMs < 5000000"
  shows "\<exists>w'. signTypedData demo_env w ''w1'' ''0xAb'' td = (Inr ''0xsig'', w')
           \<and> (\<exists>rq. net_log w' = net_log w @ [rq] \<and> is_sign_raw rq)
           \<and> session_file w' = session_file w"
proof -
  have gs: "getSession demo_env w ''w1'' ''0xAb'' = (Inr demo_session, w)"
    using assms by (simp add: getSession_def demo_session_def)
  have sr: "\<exists>hdrs. signRequest demo_env w demo_session ''POST'' ''/api/v1/wallets/w1/sign-raw'' body
      = (Inr hdrs, w\<lparr>entropy := Suc (entropy w)\<rparr>)" for body
    by (simp add: signRequest_eq demo_signAsync)
  obtain hdrs where hdrs: "signRequest demo_env w demo_session ''POST'' ''/api/v1/wallets/w1/sign-raw''
      (stringify_data demo_env (hashTypedData demo_env td)) = (Inr hdrs, w\<lparr>entropy := Suc (entropy w)\<rparr>)"
    using sr by blast
  let ?rq = "\<lparr>req_verb = ''POST'', req_url = CLARA_PROXY @ ''/api/v1/wallets/w1/sign-raw'',
      req_headers = (''Content-Type'', ''application/json'') # hdrs,
      req_body = Some (stringify_data demo_env (hashTypedData demo_env td))\<rparr>"
  have ans: "net demo_env sent ?rq = (Some (blank_response\<lparr>signature_field := Some ''0xsig''\<rparr>), 20)" for sent
    by (simp add: demo_env_def demo_net_def CLARA_PROXY_def)
  have raw: "is_sign_raw ?rq"
    by (simp add: is_sign_raw_def starts_with_def ends_with_def CLARA_PROXY_def)
  have "signTypedData demo_env w ''w1'' ''0xAb'' td
      = (Inr ''0xsig'', after_send demo_env (w\<lparr>entropy := Suc (entropy w)\<rparr>) ?rq)"
    using gs hdrs
    by (simp add: signTypedData_def Let_def fetch_eq ans ok_def blank_response_def truthy_or_def
        starts_with_def)
  then show ?thesis
    using raw by (auto simp: after_send_def)
qed

lemma demo_worlds:
  "session_file (after_send e w rq) = session_file w"
  "now (after_send demo_env w paid_request) = now w + 30"
  "now (after_send demo_env w free_request) = now w + 10"
  "net_log (after_send e w rq) = net_log w @ [rq]"
  by (simp_all add: after_send_def demo_first_paid demo_first_free)

lemma demo_paid_retry:
  "net demo_env sent (add_header paid_request h) = (Some paid_response, 30)"
  by (simp add: demo_env_def demo_net_def paid_request_def add_header_def CLARA_PROXY_def
      paid_response_def)

lemma demo_hook:
  "onBeforePaymentCreation demo_env (Some (Finite (1 / 10000))) demo_requirement = Some abort_message"
  "onBeforePaymentCreation demo_env (Some (Finite 10)) demo_requirement = None"
  by (simp_all add: onBeforePaymentCreation_def Let_def demo_cost demo_reason)

text \<open>The continuation of request 1 when the variable holds the cap of request 2.\<close>

lemma demo_resume_under_other_cap:
  assumes "session_file w = FileStored demo_session" and "now w + bufferMs < 5000000"
  shows "\<exists>w'. wrapped_resume demo_env (Some (Finite 10)) w demo_client paid_request
                 (Some payment_required) = (Inr paid_response, w')
           \<and> list_ex is_sign_raw (net_log w')"
proof -
  obtain w1 rq where sg: "signTypedData demo_env w ''w1'' ''0xAb'' (sdk_typed_data demo_env demo_requirement)
      = (Inr ''0xsig'', w1)" and lg: "net_log w1 = net_log w @ [rq]" and raw: "is_sign_raw rq"
    using demo_signTypedData [OF assms] by blast
  have st: "status payment_required = 402"
    by (simp add: payment_required_def blank_response_def)
  have "wrapped_resume demo_env (Some (Finite 10)) w demo_client paid_request (Some payment_required)
      = (Inr paid_response,
         after_send demo_env w1
           (add_header paid_request (sdk_payment_header demo_env demo_requirement ''0xsig'')))"
    using sg st
    by (simp add: wrapped_resume_def demo_select demo_hook demo_client_def fetch_eq demo_paid_retry)
  then show ?thesis
    using lg raw by (auto simp: demo_worlds)
qed

lemma demo_resume_under_own_cap:
  "wrapped_resume demo_env (Some (Finite (1 / 10000))) w demo_client paid_request
     (Some payment_required) = (Inl (PaymentAborted abort_message), w)"
proof -
  have st: "status payment_required = 402"
    by (simp add: payment_required_def blank_response_def)
  then show ?thesis
    by (simp add: wrapped_resume_def demo_select demo_hook)
qed

lemma getFetch_cached: "fetchWithPayment ms = Some c \<Longrightarrow> getFetchWithPayment ms w = Inr (c, ms)"
  by (simp add: getFetchWithPayment_def)

lemma demo_log_empty: "net_log demo_world = []"
  by (simp add: demo_world_def)

lemma demo_solo_run:
  "sys_calls (run demo_env demo_system solo_trace) 1 = Some (Returned (Inl (PaymentAborted abort_message)))"
  "net_log (sys_world (run demo_env demo_system solo_trace)) = [paid_request]"
  by (simp_all add: run_def solo_trace_def demo_system_def demo_getFetch fetch_eq demo_first_paid
      demo_resume_under_own_cap demo_worlds demo_log_empty)

lemma demo_overlapped_run:
  "sys_calls (run demo_env demo_system overlapped_trace) 1 = Some (Returned (Inr paid_response))"
  "list_ex is_sign_raw (net_log (sys_world (run demo_env demo_system overlapped_trace)))"
proof -
  let ?cap1 = "Some (Finite (1 / 10000))"
  let ?cap2 = "Some (Finite 10)"
  define w2 where "w2 = after_send demo_env (after_send demo_env demo_world paid_request) free_request"
  define s2 where "s2 = run demo_env demo_system [Start 1 paid_request ?cap1, Start 2 free_request ?cap2]"
  have s2: "s2 = \<lparr>sys_module = ready_module\<lparr>currentMaxCost := ?cap2\<rparr>, sys_world = w2,
      sys_calls = ((\<lambda>i. None)(1 := Some (InFlight demo_client paid_request (Some payment_required))))
        (2 := Some (InFlight demo_client free_request (Some (blank_response\<lparr>body_text := ''free''\<rparr>))))\<rparr>"
    by (simp add: s2_def w2_def run_def demo_system_def demo_getFetch getFetch_cached fetch_eq
        demo_first_paid demo_first_free ready_module_def)
  have "session_file w2 = FileStored demo_session" "now w2 + bufferMs < 5000000"
    by (simp_all add: w2_def demo_worlds demo_world_def bufferMs_def)
  then obtain w3 where res: "wrapped_resume demo_env ?cap2 w2 demo_client paid_request
      (Some payment_required) = (Inr paid_response, w3)" and raw: "list_ex is_sign_raw (net_log w3)"
    using demo_resume_under_other_cap by blast
  define s3 where "s3 = step demo_env s2 (Resume 1)"
  have s3: "sys_calls s3 1 = Some (Settled (Inr paid_response))" "sys_world s3 = w3"
    "sys_calls s3 2 = Some (InFlight demo_client free_request (Some (blank_response\<lparr>body_text := ''free''\<rparr>)))"
    by (simp_all add: s3_def s2 res del: One_nat_def)
  define s4 where "s4 = step demo_env s3 (Finish 1)"
  have s4: "sys_calls s4 1 = Some (Returned (Inr paid_response))" "sys_world s4 = w3"
    "sys_calls s4 2 = Some (InFlight demo_client free_request (Some (blank_response\<lparr>body_text := ''free''\<rparr>)))"
    by (simp_all add: s4_def s3 del: One_nat_def)
  have st: "status (blank_response\<lparr>body_text := ''free''\<rparr>) \<noteq> 402"
    by (simp add: blank_response_def)
  define s5 where "s5 = step demo_env s4 (Resume 2)"
  have s5: "sys_calls s5 1 = Some (Returned (Inr paid_response))" "sys_world s5 = w3"
    "sys_calls s5 2 = Some (Settled (Inr (blank_response\<lparr>body_text := ''free''\<rparr>)))"
    using st by (simp_all add: s5_def s4 wrapped_resume_def del: One_nat_def)
  define s6 where "s6 = step demo_env s5 (Finish 2)"
  have s6: "sys_calls s6 1 = Some (Returned (Inr paid_response))" "sys_world s6 = w3"
    by (simp_all add: s6_def s5 del: One_nat_def)
  have "run demo_env demo_system overlapped_trace = s6"
    by (simp add: run_def overlapped_trace_def s6_def s5_def s4_def s3_def s2_def)
  then show "sys_calls (run demo_env demo_system overlapped_trace) 1 = Some (Returned (Inr paid_response))"
    and "list_ex is_sign_raw (net_log (sys_world (run demo_env demo_system overlapped_trace)))"
    using s6 raw by simp_all
qed

text \<open>
  C2 does not hold of the code. Request 1, for a resource that costs 1.0000 under a cap of
  0.0001, is aborted when it runs alone and no signing request is sent. When request 2, with a cap
  of 10, starts while request 1 waits for its first response, the hook of request 1 reads the cap
  of request 2: request 1 is signed for and paid.
\<close>

theorem guard_bleed:
  "sys_calls (run demo_env demo_system solo_trace) 1 = Some (Returned (Inl (PaymentAborted abort_message)))
   \<and> net_log (sys_world (run demo_env demo_system solo_trace)) = [paid_request]
   \<and> sys_calls (run demo_env demo_system overlapped_trace) 1 = Some (Returned (Inr paid_response))
   \<and> list_ex is_sign_raw (net_log (sys_world (run demo_env demo_system overlapped_trace)))"
  using demo_solo_run demo_overlapped_run by simp

text \<open>
  C1 does not hold of the code. In the overlapped run, request 1 is started with the cap 0.0001.
  Its first response is a 402 whose selected requirement asks for 1000000 units, a cost of 1,
  which is greater than that cap. Yet the payment is not aborted: a signing request goes to the
  custody gateway and request 1 returns the response of the paid retry. The cause is the one of
  C2, the cap of request 2 standing in the variable when the hook of request 1 runs.
\<close>

theorem cap_exceeded_yet_signed:
  "hd overlapped_trace = Start 1 paid_request (Some (Finite (1 / 10000)))
   \<and> fst (net demo_env (net_log demo_world) paid_request) = Some payment_required
   \<and> status payment_required = 402
   \<and> sdk_select demo_env (accepts payment_required) = Some demo_requirement
   \<and> js_gt (js_div demo_env (js_Number demo_env (maxAmountRequired demo_requirement)) 1000000)
         (Finite (1 / 10000))
   \<and> sys_calls (run demo_env demo_system overlapped_trace) 1 = Some (Returned (Inr paid_response))
   \<and> list_ex is_sign_raw (net_log (sys_world (run demo_env demo_system overlapped_trace)))"
proof -
  have "status payment_required = 402"
    by (simp add: payment_required_def blank_response_def)
  moreover have "js_gt (js_div demo_env (js_Number demo_env (maxAmountRequired demo_requirement)) 1000000)
      (Finite (1 / 10000))"
    by (simp add: demo_cost)
  ultimately show ?thesis
    using demo_overlapped_run demo_select
    by (simp add: overlapped_trace_def demo_first_paid)
qed

text \<open>
  In a run of overlapping calls the guard of a call decides by the cap that the variable holds
  when the call resumes: if that cap is below the cost, the call is aborted and nothing is sent.
\<close>

lemma resume_aborts_under_held_cap:
  assumes "sys_calls s i = Some (InFlight client rq (Some r1))" and "status r1 = 402"
    and "sdk_select e (accepts r1) = Some sel"
    and "currentMaxCost (sys_module s) = Some cap"
    and "js_gt (js_div e (js_Number e (maxAmountRequired sel)) 1000000) cap"
  shows "step e s (Resume i) =
           s\<lparr>sys_calls := (sys_calls s)
               (i := Some (Settled (Inl (PaymentAborted
                  (guard_reason e (js_div e (js_Number e (maxAmountRequired sel)) 1000000) cap)))))\<rparr>"
  using assms
  by (simp add: wrapped_resume_def onBeforePaymentCreation_def Let_def)

text \<open>One call run piece by piece, with nothing in between, is \<open>x402Fetch\<close>.\<close>

lemma run_alone_is_x402Fetch:
  "sys_calls (run e s [Start i rq c, Resume i, Finish i]) i
     = Some (Returned (fst (x402Fetch e (sys_module s) (sys_world s) rq c)))
   \<and> sys_module (run e s [Start i rq c, Resume i, Finish i])
     = fst (snd (x402Fetch e (sys_module s) (sys_world s) rq c))
   \<and> sys_world (run e s [Start i rq c, Resume i, Finish i])
     = snd (snd (x402Fetch e (sys_module s) (sys_world s) rq c))"
  by (simp add: run_def x402Fetch_def payFetch_def Let_def
      split: sum.splits prod.splits)

section \<open>The cap variable across calls\<close>

lemma x402Fetch_resets:
  assumes "currentMaxCost ms = None \<or> fetchWithPayment ms \<noteq> None \<or> wallet_file w \<noteq> None"
  shows "currentMaxCost (fst (snd (x402Fetch e ms w rq maxCostUsd))) = None"
  using assms
  by (auto simp add: x402Fetch_def getFetchWithPayment_def loadWallet_def Let_def
      split: option.splits prod.splits sum.splits)

lemma module_after_calls_empty:
  "currentMaxCost ms = None \<Longrightarrow> currentMaxCost (module_after_calls e ms cs) = None"
proof (induction cs arbitrary: ms)
  case Nil
  then show ?case by simp
next
  case (Cons c cs)
  obtain w rq maxCostUsd where c: "c = (w, rq, maxCostUsd)" by (cases c) auto
  have "currentMaxCost (fst (snd (x402Fetch e ms w rq maxCostUsd))) = None"
    using Cons.prems by (simp add: x402Fetch_resets)
  then show ?case using Cons.IH c by simp
qed

text \<open>
  C10. After a call of \<open>x402Fetch\<close> has completed, \<open>_currentMaxCost\<close> is \<open>undefined\<close>: whenever
  the call got as far as storing its cap (a client exists or a wallet to create it from), the
  \<open>finally\<close> block has emptied the variable, whatever the wrapped fetch returned or threw; a
  call that throws before that leaves an empty variable empty. So from the loading of the module
  on, through any sequence of calls that do not overlap, the variable is empty whenever a call
  begins. In the piecewise run of overlapping calls, the piece that ends a call empties the
  variable as well.
\<close>

theorem cap_reset_after_call:
  "(currentMaxCost ms = None \<or> fetchWithPayment ms \<noteq> None \<or> wallet_file w \<noteq> None \<longrightarrow>
      currentMaxCost (fst (snd (x402Fetch e ms w rq maxCostUsd))) = None)
   \<and> currentMaxCost (module_after_calls e fresh_module cs) = None
   \<and> (sys_calls s i = Some (Settled res) \<longrightarrow>
        currentMaxCost (sys_module (step e s (Finish i))) = None
        \<and> sys_calls (step e s (Finish i)) i = Some (Returned res))"
  using x402Fetch_resets [of ms w e rq maxCostUsd]
    module_after_calls_empty [of fresh_module e cs]
  by (simp add: fresh_module_def)

theorem cap_reset_after_call_witness:
  "wallet_file demo_world \<noteq> None
   \<and> fst (x402Fetch demo_env fresh_module demo_world paid_request (Some (Finite (1 / 10000))))
       = Inl (PaymentAborted abort_message)
   \<and> currentMaxCost (fst (snd (x402Fetch demo_env fresh_module demo_world paid_request
        (Some (Finite (1 / 10000)))))) = None
   \<and> currentMaxCost (module_after_calls demo_env fresh_module
        [(demo_world, paid_request, Some (Finite (1 / 10000))), (demo_world, free_request, None)]) = None
   \<and> sys_calls (run demo_env demo_system [Start 1 paid_request (Some (Finite (1 / 10000))), Resume 1]) 1
       = Some (Settled (Inl (PaymentAborted abort_message)))
   \<and> currentMaxCost (sys_module
        (run demo_env demo_system [Start 1 paid_request (Some (Finite (1 / 10000))), Resume 1]))
       = Some (Finite (1 / 10000))
   \<and> currentMaxCost (sys_module (step demo_env
        (run demo_env demo_system [Start 1 paid_request (Some (Finite (1 / 10000))), Resume 1])
        (Finish 1))) = None"
proof -
  have wal: "wallet_file demo_world \<noteq> None" by (simp add: demo_world_def)
  have first: "fst (net demo_env (net_log demo_world) paid_request) = Some payment_required"
    by (simp add: demo_first_paid)
  have st: "status payment_required = 402"
    by (simp add: payment_required_def blank_response_def)
  have gt: "js_gt (js_div demo_env (js_Number demo_env (maxAmountRequired demo_requirement)) 1000000)
      (Finite (1 / 10000))"
    by (simp add: demo_cost)
  have ab: "fst (x402Fetch demo_env fresh_module demo_world paid_request (Some (Finite (1 / 10000))))
      = Inl (PaymentAborted abort_message)"
    using x402Fetch_aborted [OF demo_getFetch(1) first st demo_select gt]
    by (simp add: demo_cost demo_reason)
  define s where "s = run demo_env demo_system [Start 1 paid_request (Some (Finite (1 / 10000))), Resume 1]"
  have settled: "sys_calls s 1 = Some (Settled (Inl (PaymentAborted abort_message)))"
    and held: "currentMaxCost (sys_module s) = Some (Finite (1 / 10000))"
    by (simp_all add: s_def run_def demo_system_def demo_getFetch fetch_eq demo_first_paid
        demo_resume_under_own_cap ready_module_def)
  show ?thesis
    using wal ab settled held
      cap_reset_after_call [of fresh_module demo_world demo_env paid_request
        "Some (Finite (1 / 10000))"
        "[(demo_world, paid_request, Some (Finite (1 / 10000))), (demo_world, free_request, None)]"
        s 1 "Inl (PaymentAborted abort_message)"]
    by (simp add: s_def)
qed

end
